theory Spec2Isabelle
  imports Complex_Main "HOL-Library.Multiset" "HOL-Library.Char_ord" "HOL-Library.List_Lexorder"
begin

section \<open>Data model\<close>

text \<open>
  The relational schema of the migration (\<open>CREATE TABLE public. ...\<close>). A UUID is a
  string, a \<open>TIMESTAMPTZ\<close> is the number of milliseconds since the epoch (what
  \<open>new Date(...).getTime()\<close> and \<open>Date.now()\<close> return). A nullable column is an
  \<open>option\<close>. The bookkeeping columns \<open>created_at\<close> and \<open>updated_at\<close> and the
  surrogate \<open>id\<close> of \<open>user_roles\<close> and \<open>upvotes\<close> are read by none of the
  modelled operations and are left out; so is the unused \<open>notifications\<close> table.
\<close>

type_synonym uuid = string
type_synonym timestamp = int

datatype app_role = student | teacher | hod | principal

datatype issue_status = pending | acknowledged | work_done

record department =
  d_id :: uuid
  d_name :: string
  d_code :: string

record profile =
  p_id :: uuid
  college_id :: string
  full_name :: string
  email :: string
  p_department_id :: "uuid option"

record user_role =
  ur_user_id :: uuid
  ur_role :: app_role

record issue =
  i_id :: uuid
  reporter_id :: uuid
  department_id :: uuid
  room_no :: string
  item_id :: string
  title :: string
  description :: "string option"
  photo_url :: "string option"
  status :: issue_status
  is_priority :: bool
  reported_at :: timestamp
  deadline :: timestamp
  resolved_at :: "timestamp option"

record upvote =
  issue_id :: uuid
  user_id :: uuid

record db =
  departments :: "department list"
  profiles :: "profile list"
  user_roles :: "user_role list"
  issues :: "issue list"
  upvotes :: "upvote list"

section \<open>IssueCard: days remaining\<close>

text \<open>
  \<open>Math.ceil((new Date(issue.deadline).getTime() - Date.now()) / (1000 * 60 * 60 * 24))\<close>.
  Both times are whole milliseconds; the quotient is taken in the reals and rounded up.
\<close>

definition daysRemaining :: "timestamp \<Rightarrow> timestamp \<Rightarrow> int" where
  "daysRemaining dl now = \<lceil>(real_of_int dl - real_of_int now) / (1000 * 60 * 60 * 24)\<rceil>"

text \<open>\<open>deadline TIMESTAMPTZ NOT NULL DEFAULT (now() + interval '30 days')\<close>, in milliseconds.\<close>

definition default_deadline :: "timestamp \<Rightarrow> timestamp" where
  "default_deadline now = now + 30 * (1000 * 60 * 60 * 24)"

text \<open>
  The badge \<open>{daysRemaining}d left\<close> is rendered under
  \<open>issue.status !== 'work_done' && daysRemaining <= 7\<close>.
\<close>

definition days_left_badge :: "issue \<Rightarrow> timestamp \<Rightarrow> int option" where
  "days_left_badge i now =
     (if status i \<noteq> work_done \<and> daysRemaining (deadline i) now \<le> 7
      then Some (daysRemaining (deadline i) now) else None)"

section \<open>Feed query (Index page)\<close>

datatype sort_mode = upvotes_mode | recent_mode

record feed_item =
  issue :: issue
  upvoteCount :: int
  hasUpvoted :: bool

text \<open>
  PostgREST's \<open>.single()\<close>: the row when exactly one row matches, otherwise an error
  and \<open>data = null\<close>.
\<close>

definition single :: "'a list \<Rightarrow> 'a option" where
  "single rows = (case rows of [r] \<Rightarrow> Some r | _ \<Rightarrow> None)"

text \<open>
  The per-issue lookups of the query function: \<open>count\<close> of the upvotes of the issue
  (\<open>count || 0\<close>), and \<open>!!userUpvote\<close> for the viewer's own row. The viewer is
  \<open>user?.id\<close>; without a user no row matches.
\<close>

definition count_upvotes :: "upvote list \<Rightarrow> uuid \<Rightarrow> int" where
  "count_upvotes ups iid = int (length (filter (\<lambda>u. issue_id u = iid) ups))"

definition userUpvote :: "upvote list \<Rightarrow> uuid option \<Rightarrow> uuid \<Rightarrow> upvote option" where
  "userUpvote ups viewer iid =
     (case viewer of
        None \<Rightarrow> None
      | Some uid \<Rightarrow> single (filter (\<lambda>u. issue_id u = iid \<and> user_id u = uid) ups))"

definition with_upvotes :: "upvote list \<Rightarrow> uuid option \<Rightarrow> issue \<Rightarrow> feed_item" where
  "with_upvotes ups viewer i =
     \<lparr>issue = i, upvoteCount = count_upvotes ups (i_id i),
      hasUpvoted = (userUpvote ups viewer (i_id i) \<noteq> None)\<rparr>"

text \<open>
  \<open>Array.prototype.sort(compareFn)\<close> is a stable sort: it returns the one permutation
  that is ordered by \<open>compareFn\<close> and keeps elements that compare equal in their
  original order. Insertion from the right, placing an element before the first one it
  does not compare greater than, computes that permutation.
\<close>

fun insert_by :: "('a \<Rightarrow> 'a \<Rightarrow> int) \<Rightarrow> 'a \<Rightarrow> 'a list \<Rightarrow> 'a list" where
  "insert_by cmp x [] = [x]"
| "insert_by cmp x (y # ys) = (if cmp x y \<le> 0 then x # y # ys else y # insert_by cmp x ys)"

definition array_sort :: "('a \<Rightarrow> 'a \<Rightarrow> int) \<Rightarrow> 'a list \<Rightarrow> 'a list" where
  "array_sort cmp xs = foldr (insert_by cmp) xs []"

text \<open>
  The request of the feed's query function: \<open>from('issues').select(...)\<close>, with
  \<open>.order('reported_at', { ascending: false })\<close> added when \<open>sortBy === 'recent'\<close>.
  The backend answers from the rows of the table in the order in which it reads them,
  \<open>rows\<close>: a permutation of the table that is the backend's own choice and need not be
  the order of insertion. With the order clause it returns them sorted on the column,
  larger \<open>reported_at\<close> first; which of two rows with the same \<open>reported_at\<close> comes
  first is thereby the backend's choice as well.
\<close>

definition select_issues :: "sort_mode \<Rightarrow> issue list \<Rightarrow> issue list" where
  "select_issues sortBy rows =
     (if sortBy = recent_mode then sort_key (\<lambda>i. - reported_at i) rows else rows)"

text \<open>
  The query function of the feed: the request, the two lookups for each row of the
  response \<open>data\<close>, and the client's sort in the upvotes mode.
\<close>

definition issues_query :: "sort_mode \<Rightarrow> upvote list \<Rightarrow> uuid option \<Rightarrow> issue list \<Rightarrow> feed_item list" where
  "issues_query sortBy ups viewer rows =
     (let data = select_issues sortBy rows;
          issuesWithUpvotes = map (with_upvotes ups viewer) data
      in if sortBy = upvotes_mode
         then array_sort (\<lambda>a b. upvoteCount b - upvoteCount a) issuesWithUpvotes
         else issuesWithUpvotes)"

section \<open>Data layer: constraints and row-level security\<close>

text \<open>
  An error is either thrown by the client itself (\<open>new Error(message)\<close>) or comes back
  in the \<open>error\<close> field of a response: a violated constraint, a new row rejected by a
  \<open>WITH CHECK\<close> policy, a request that did not complete, or a storage error.
\<close>

datatype error =
    Error string
  | unique_violation
  | foreign_key_violation
  | insufficient_privilege
  | request_failed string
  | StorageError string

text \<open>
  What a handler leaves on the screen: its \<open>try\<close> block ran to the end (with the toast
  it showed there, if any), or the \<open>catch\<close> block showed a destructive toast with the
  given title and the error's message, or the handler returned at once.
\<close>

datatype outcome =
    Succeeded "(string \<times> string) option"
  | Failed string error
  | Ignored

text \<open>\<open>public.has_role(_user_id, _role)\<close>.\<close>

definition has_role :: "db \<Rightarrow> uuid \<Rightarrow> app_role \<Rightarrow> bool" where
  "has_role d uid r = list_ex (\<lambda>x. ur_user_id x = uid \<and> ur_role x = r) (user_roles d)"

text \<open>
  The policies. Every policy is \<open>TO authenticated\<close>: a request without a session
  (\<open>auth.uid()\<close> null) passes none. A \<open>USING\<close> policy filters the rows a statement
  may touch: a row that fails it is skipped without an error.
\<close>

definition hods_can_update_issues_in_their_department :: "db \<Rightarrow> uuid option \<Rightarrow> issue \<Rightarrow> bool" where
  "hods_can_update_issues_in_their_department d auth i =
     (case auth of
        None \<Rightarrow> False
      | Some uid \<Rightarrow>
          has_role d uid hod \<and>
          list_ex (\<lambda>p. p_id p = uid \<and> p_department_id p = Some (department_id i)) (profiles d))"

definition principals_can_update_any_issue :: "db \<Rightarrow> uuid option \<Rightarrow> issue \<Rightarrow> bool" where
  "principals_can_update_any_issue d auth i =
     (case auth of None \<Rightarrow> False | Some uid \<Rightarrow> has_role d uid principal)"

definition issues_update_policy :: "db \<Rightarrow> uuid option \<Rightarrow> issue \<Rightarrow> bool" where
  "issues_update_policy d auth i =
     (hods_can_update_issues_in_their_department d auth i \<or> principals_can_update_any_issue d auth i)"

text \<open>
  \<open>"Users can delete their own issues"\<close> is added by a migration of its own; with row
  level security enabled and no \<open>DELETE\<close> policy, as the first migration leaves the
  table, no row can be deleted.
\<close>

definition users_can_delete_their_own_issues :: "uuid option \<Rightarrow> issue \<Rightarrow> bool" where
  "users_can_delete_their_own_issues auth i = (auth = Some (reporter_id i))"

definition no_delete_policy :: "uuid option \<Rightarrow> issue \<Rightarrow> bool" where
  "no_delete_policy auth i = False"

definition users_can_view_roles :: "db \<Rightarrow> uuid option \<Rightarrow> user_role \<Rightarrow> bool" where
  "users_can_view_roles d auth r =
     (case auth of None \<Rightarrow> False | Some uid \<Rightarrow> ur_user_id r = uid \<or> has_role d uid principal)"

text \<open>
  \<open>from('issues').update({status, resolved_at?}).eq('id', issueId)\<close>. The payload
  carries \<open>resolved_at\<close> only when the caller put it there; a column that is not in the
  payload keeps its value. The argument \<open>net\<close> of each request is \<open>Some message\<close>
  when the request does not complete.
\<close>

definition update_issues ::
  "db \<Rightarrow> uuid option \<Rightarrow> uuid \<Rightarrow> issue_status \<Rightarrow> timestamp option \<Rightarrow> string option \<Rightarrow> error option \<times> db" where
  "update_issues d auth iid s r net =
     (case net of
        Some m \<Rightarrow> (Some (request_failed m), d)
      | None \<Rightarrow>
          (None, d\<lparr>issues :=
             map (\<lambda>i. if i_id i = iid \<and> issues_update_policy d auth i
                       then i\<lparr>status := s,
                              resolved_at := (case r of None \<Rightarrow> resolved_at i | Some t \<Rightarrow> Some t)\<rparr>
                       else i)
                 (issues d)\<rparr>))"

text \<open>
  \<open>from('upvotes').delete().eq('issue_id', ...).eq('user_id', ...)\<close> under
  \<open>"Users can delete their own upvotes"\<close>.
\<close>

definition delete_upvotes :: "db \<Rightarrow> uuid option \<Rightarrow> uuid \<Rightarrow> uuid \<Rightarrow> string option \<Rightarrow> error option \<times> db" where
  "delete_upvotes d auth iid uid net =
     (case net of
        Some m \<Rightarrow> (Some (request_failed m), d)
      | None \<Rightarrow>
          (None, d\<lparr>upvotes :=
             filter (\<lambda>u. \<not> (issue_id u = iid \<and> user_id u = uid \<and> auth = Some (user_id u)))
                    (upvotes d)\<rparr>))"

text \<open>
  \<open>from('upvotes').insert({issue_id, user_id})\<close>: the new row must pass
  \<open>WITH CHECK (user_id = auth.uid())\<close>, then \<open>UNIQUE(issue_id, user_id)\<close>, then the
  two foreign keys.
\<close>

definition insert_upvote :: "db \<Rightarrow> uuid option \<Rightarrow> upvote \<Rightarrow> string option \<Rightarrow> error option \<times> db" where
  "insert_upvote d auth row net =
     (case net of
        Some m \<Rightarrow> (Some (request_failed m), d)
      | None \<Rightarrow>
          if auth = Some (user_id row) then
            if list_ex (\<lambda>u. issue_id u = issue_id row \<and> user_id u = user_id row) (upvotes d)
            then (Some unique_violation, d)
            else if list_ex (\<lambda>i. i_id i = issue_id row) (issues d)
                    \<and> list_ex (\<lambda>p. p_id p = user_id row) (profiles d)
            then (None, d\<lparr>upvotes := upvotes d @ [row]\<rparr>)
            else (Some foreign_key_violation, d)
          else (Some insufficient_privilege, d))"

text \<open>
  \<open>from('issues').delete().eq('id', issueId).eq('reporter_id', user.id)\<close> under the
  \<open>DELETE\<close> policy \<open>pol\<close> in force. The upvotes of a deleted issue go with it
  (\<open>ON DELETE CASCADE\<close>).
\<close>

definition delete_issues ::
  "(uuid option \<Rightarrow> issue \<Rightarrow> bool) \<Rightarrow> db \<Rightarrow> uuid option \<Rightarrow> uuid \<Rightarrow> uuid \<Rightarrow> string option \<Rightarrow> error option \<times> db" where
  "delete_issues pol d auth iid uid net =
     (case net of
        Some m \<Rightarrow> (Some (request_failed m), d)
      | None \<Rightarrow>
          (let gone = filter (\<lambda>i. i_id i = iid \<and> reporter_id i = uid \<and> pol auth i) (issues d)
           in (None, d\<lparr>issues :=
                        filter (\<lambda>i. \<not> (i_id i = iid \<and> reporter_id i = uid \<and> pol auth i)) (issues d),
                      upvotes :=
                        filter (\<lambda>u. \<not> list_ex (\<lambda>i. i_id i = issue_id u) gone) (upvotes d)\<rparr>)))"

text \<open>\<open>from('issues').select('reporter_id').eq('id', issueId).single()\<close>; only \<open>data\<close> is read.\<close>

definition select_issue_single :: "db \<Rightarrow> uuid \<Rightarrow> string option \<Rightarrow> issue option" where
  "select_issue_single d iid net =
     (case net of Some m \<Rightarrow> None | None \<Rightarrow> single (filter (\<lambda>i. i_id i = iid) (issues d)))"

text \<open>\<open>from('issues').select('id', { count: 'exact' }).eq('id', issueId)\<close>.\<close>

definition count_issues :: "db \<Rightarrow> uuid \<Rightarrow> string option \<Rightarrow> error + nat" where
  "count_issues d iid net =
     (case net of
        Some m \<Rightarrow> Inl (request_failed m)
      | None \<Rightarrow> Inr (length (filter (\<lambda>i. i_id i = iid) (issues d))))"

section \<open>Handlers\<close>

text \<open>\<open>handleStatusChange\<close> of the Principal and the HoD dashboard (the same code in both).\<close>

definition handleStatusChange ::
  "db \<Rightarrow> uuid option \<Rightarrow> uuid \<Rightarrow> issue_status \<Rightarrow> timestamp \<Rightarrow> string option \<Rightarrow> outcome \<times> db" where
  "handleStatusChange d auth issueId newStatus now net =
     (case update_issues d auth issueId newStatus
             (if newStatus = work_done then Some now else None) net of
        (Some e, d') \<Rightarrow> (Failed ''Update Failed'' e, d')
      | (None, d') \<Rightarrow>
          (Succeeded (Some (''Status Updated'', ''Issue status has been updated successfully.'')), d'))"

text \<open>
  \<open>handleUpvote\<close> of the issue card. \<open>user\<close> is the session's user
  (\<open>supabase.auth.getUser()\<close>), \<open>hasUpvoted\<close> the property the card was rendered with.
  On success the card shows no toast and calls \<open>onUpvoteChange\<close>.
\<close>

definition handleUpvote :: "db \<Rightarrow> uuid option \<Rightarrow> uuid \<Rightarrow> bool \<Rightarrow> string option \<Rightarrow> outcome \<times> db" where
  "handleUpvote d user iid hasUpvoted' net =
     (case user of
        None \<Rightarrow> (Failed ''Error'' (Error ''Not authenticated''), d)
      | Some uid \<Rightarrow>
          (case (if hasUpvoted' then delete_upvotes d user iid uid net
                 else insert_upvote d user \<lparr>issue_id = iid, user_id = uid\<rparr> net) of
             (Some e, d') \<Rightarrow> (Failed ''Error'' e, d')
           | (None, d') \<Rightarrow> (Succeeded None, d')))"

text \<open>
  A click on the upvote button of the card of issue \<open>i\<close>, rendered from the feed that was
  fetched in the state \<open>d\<close>: the card has its \<open>hasUpvoted\<close> from the feed item, and
  \<open>onUpvoteChange\<close> fetches the feed again after the click.
\<close>

definition click_upvote :: "db \<Rightarrow> uuid \<Rightarrow> issue \<Rightarrow> outcome \<times> db" where
  "click_upvote d uid i =
     handleUpvote d (Some uid) (i_id i) (hasUpvoted (with_upvotes (upvotes d) (Some uid) i)) None"

text \<open>
  \<open>handleDeleteIssue\<close> of the profile page: the reporter check on the row read first,
  the delete, and the count of the rows that are left.
\<close>

definition handleDeleteIssue ::
  "(uuid option \<Rightarrow> issue \<Rightarrow> bool) \<Rightarrow> db \<Rightarrow> uuid option \<Rightarrow> uuid
     \<Rightarrow> string option \<Rightarrow> string option \<Rightarrow> string option \<Rightarrow> outcome \<times> db" where
  "handleDeleteIssue pol d user issueId net1 net2 net3 =
     (case user of
        None \<Rightarrow> (Ignored, d)
      | Some uid \<Rightarrow>
          (let issueCheck = select_issue_single d issueId net1 in
           if (case issueCheck of None \<Rightarrow> False | Some i \<Rightarrow> reporter_id i \<noteq> uid)
           then (Failed ''Delete failed'' (Error ''You are not the reporter of this issue''), d)
           else
             (case delete_issues pol d user issueId uid net2 of
                (Some delError, d') \<Rightarrow> (Failed ''Delete failed'' delError, d')
              | (None, d') \<Rightarrow>
                  (case count_issues d' issueId net3 of
                     Inl checkError \<Rightarrow> (Failed ''Delete failed'' checkError, d')
                   | Inr remainingCount \<Rightarrow>
                       if 0 < remainingCount
                       then (Failed ''Delete failed''
                               (Error ''Delete did not apply due to permissions''), d')
                       else (Succeeded (Some (''Issue deleted'', ''Your report has been removed.'')),
                             d')))))"

section \<open>Issue submission\<close>

text \<open>\<open>String.prototype.split\<close> on a one-character separator, and template-literal printing of a number.\<close>

fun split_on :: "char \<Rightarrow> string \<Rightarrow> string list" where
  "split_on c [] = [[]]"
| "split_on c (x # xs) =
     (if x = c then [] # split_on c xs
      else (case split_on c xs of [] \<Rightarrow> [[x]] | piece # pieces \<Rightarrow> (x # piece) # pieces))"

fun digits_of :: "nat \<Rightarrow> string" where
  "digits_of n =
     (if n < 10 then [''0123456789'' ! n]
      else digits_of (n div 10) @ [''0123456789'' ! (n mod 10)])"

declare digits_of.simps [simp del]

definition number_string :: "int \<Rightarrow> string" where
  "number_string n = (if n < 0 then CHR ''-'' # digits_of (nat (- n)) else digits_of (nat n))"

record photo =
  photo_name :: string
  photo_bytes :: string

text \<open>\<open>`${user?.id}/${Date.now()}.${fileExt}`\<close> with \<open>fileExt = photo.name.split('.').pop()\<close>.\<close>

definition fileName :: "uuid option \<Rightarrow> timestamp \<Rightarrow> photo \<Rightarrow> string" where
  "fileName user now ph =
     (case user of None \<Rightarrow> ''undefined'' | Some uid \<Rightarrow> uid)
       @ ''/'' @ number_string now @ ''.'' @ last (split_on CHR ''.'' (photo_name ph))"

text \<open>
  \<open>storage.from('issue-photos').upload(fileName, photo)\<close> on the bucket's objects
  (key and bytes); \<open>net\<close> is \<open>Some message\<close> when the upload fails.
\<close>

definition upload :: "(string \<times> string) list \<Rightarrow> string \<Rightarrow> photo \<Rightarrow> string option \<Rightarrow> error option \<times> (string \<times> string) list" where
  "upload objects key ph net =
     (case net of
        Some m \<Rightarrow> (Some (StorageError m), objects)
      | None \<Rightarrow> (None, objects @ [(key, photo_bytes ph)]))"

text \<open>
  \<open>from('issues').insert({...})\<close>. The new row must pass
  \<open>WITH CHECK (reporter_id = auth.uid())\<close>, its generated \<open>id\<close> is the primary key,
  and \<open>reporter_id\<close> and \<open>department_id\<close> reference existing rows. The columns the
  payload leaves out take their defaults; \<open>new_id\<close> is the value of
  \<open>gen_random_uuid()\<close> and \<open>db_now\<close> that of \<open>now()\<close>.
\<close>

definition insert_issue ::
  "db \<Rightarrow> uuid option \<Rightarrow> uuid option \<Rightarrow> uuid \<Rightarrow> string \<Rightarrow> string \<Rightarrow> string \<Rightarrow> string
     \<Rightarrow> string option \<Rightarrow> uuid \<Rightarrow> timestamp \<Rightarrow> string option \<Rightarrow> error option \<times> db" where
  "insert_issue d auth reporter dept room item ttl descr purl new_id db_now net =
     (case net of
        Some m \<Rightarrow> (Some (request_failed m), d)
      | None \<Rightarrow>
          (case reporter of
             None \<Rightarrow> (Some insufficient_privilege, d)
           | Some rep \<Rightarrow>
               if auth = Some rep then
                 if list_ex (\<lambda>i. i_id i = new_id) (issues d) then (Some unique_violation, d)
                 else if list_ex (\<lambda>p. p_id p = rep) (profiles d)
                         \<and> list_ex (\<lambda>x. d_id x = dept) (departments d)
                 then (None, d\<lparr>issues := issues d @
                         [\<lparr>i_id = new_id, reporter_id = rep, department_id = dept,
                           room_no = room, item_id = item, title = ttl,
                           description = Some descr, photo_url = purl, status = pending,
                           is_priority = False, reported_at = db_now,
                           deadline = default_deadline db_now, resolved_at = None\<rparr>]\<rparr>)
                 else (Some foreign_key_violation, d)
               else (Some insufficient_privilege, d)))"

text \<open>
  \<open>handleSubmitIssue\<close> of the index page, on the bucket's objects and the database.
  \<open>getPublicUrl\<close> is the storage client's function from an object key to its URL.
\<close>

definition handleSubmitIssue ::
  "(string \<Rightarrow> string) \<Rightarrow> (string \<times> string) list \<Rightarrow> db \<Rightarrow> uuid option
     \<Rightarrow> uuid \<Rightarrow> string \<Rightarrow> string \<Rightarrow> string \<Rightarrow> string \<Rightarrow> photo option
     \<Rightarrow> timestamp \<Rightarrow> uuid \<Rightarrow> timestamp \<Rightarrow> string option \<Rightarrow> string option
     \<Rightarrow> outcome \<times> (string \<times> string) list \<times> db" where
  "handleSubmitIssue getPublicUrl objects d user departmentId roomNo itemId title' description'
       photo' now new_id db_now net_upload net_insert =
     (case (case photo' of
              None \<Rightarrow> (None, None, objects)
            | Some ph \<Rightarrow>
                (case upload objects (fileName user now ph) ph net_upload of
                   (Some uploadError, objects') \<Rightarrow> (Some uploadError, None, objects')
                 | (None, objects') \<Rightarrow>
                     (None, Some (getPublicUrl (fileName user now ph)), objects'))) of
        (Some uploadError, photoUrl, objects') \<Rightarrow> (Failed ''Error'' uploadError, objects', d)
      | (None, photoUrl, objects') \<Rightarrow>
          (case insert_issue d user user departmentId roomNo itemId title' description'
                  photoUrl new_id db_now net_insert of
             (Some e, d') \<Rightarrow> (Failed ''Error'' e, objects', d')
           | (None, d') \<Rightarrow>
               (Succeeded (Some (''Issue reported'', ''Your issue has been successfully reported.'')),
                objects', d')))"

section \<open>Roles and dashboards\<close>

text \<open>
  The header's role query: \<open>from('user_roles').select('role').eq('user_id', user.id).single()\<close>,
  \<open>if (error) return null\<close>. It runs only with a user (\<open>enabled: !!user\<close>). The two
  dashboard links are rendered under \<open>userRole === 'hod'\<close> and
  \<open>userRole === 'principal'\<close>.
\<close>

definition userRole :: "db \<Rightarrow> uuid option \<Rightarrow> string option \<Rightarrow> app_role option" where
  "userRole d user net =
     (case user of
        None \<Rightarrow> None
      | Some uid \<Rightarrow>
          (case net of
             Some m \<Rightarrow> None
           | None \<Rightarrow>
               map_option ur_role
                 (single (filter (\<lambda>r. ur_user_id r = uid)
                            (filter (users_can_view_roles d user) (user_roles d))))))"

definition hod_link :: "app_role option \<Rightarrow> bool" where
  "hod_link r = (r = Some hod)"

definition principal_link :: "app_role option \<Rightarrow> bool" where
  "principal_link r = (r = Some principal)"

text \<open>
  The gate of a dashboard: the same query with \<open>.eq('role', ...)\<close> added; the
  dashboard is shown when \<open>data\<close> is not null.
\<close>

definition has_dashboard_role :: "app_role \<Rightarrow> db \<Rightarrow> uuid option \<Rightarrow> string option \<Rightarrow> bool" where
  "has_dashboard_role role d user net =
     (case user of
        None \<Rightarrow> False
      | Some uid \<Rightarrow>
          (case net of
             Some m \<Rightarrow> False
           | None \<Rightarrow>
               single (filter (\<lambda>r. ur_user_id r = uid \<and> ur_role r = role)
                         (filter (users_can_view_roles d user) (user_roles d))) \<noteq> None))"

definition hasPrincipalRole :: "db \<Rightarrow> uuid option \<Rightarrow> string option \<Rightarrow> bool" where
  "hasPrincipalRole = has_dashboard_role principal"

definition hasHodRole :: "db \<Rightarrow> uuid option \<Rightarrow> string option \<Rightarrow> bool" where
  "hasHodRole = has_dashboard_role hod"

text \<open>
  The departments query of the index and the sign-up page,
  \<open>from('departments').select('*').order('name')\<close>, and that of the Principal
  dashboard, which adds \<open>.in('code', ['CS', 'EE', 'ME', 'HU'])\<close>.
\<close>

definition departments_query :: "db \<Rightarrow> department list" where
  "departments_query d = sort_key d_name (departments d)"

definition principal_departments_query :: "db \<Rightarrow> department list" where
  "principal_departments_query d =
     sort_key d_name
       (filter (\<lambda>x. d_code x \<in> set [''CS'', ''EE'', ''ME'', ''HU'']) (departments d))"

text \<open>
  The dashboard's issue query (\<open>selectedDepartment\<close> is \<open>None\<close> for \<open>'all'\<close>), its
  department-wise statistics and the values its department filter offers. The backend's
  \<open>ORDER BY\<close> is a sort on the column; the order it gives to rows with equal keys is
  its own choice, here the order of the table.
\<close>

definition principal_issues_query :: "db \<Rightarrow> uuid option \<Rightarrow> issue list" where
  "principal_issues_query d selectedDepartment =
     sort_key (\<lambda>i. - reported_at i)
       (case selectedDepartment of
          None \<Rightarrow> issues d
        | Some dep \<Rightarrow> filter (\<lambda>i. department_id i = dep) (issues d))"

definition departmentStats :: "department list \<Rightarrow> issue list \<Rightarrow> (department \<times> nat \<times> nat) list" where
  "departmentStats depts issues' =
     map (\<lambda>dept.
            (dept,
             length (filter (\<lambda>i. department_id i = d_id dept) issues'),
             length (filter (\<lambda>i. department_id i = d_id dept \<and> status i = pending) issues')))
         depts"

definition filter_options :: "department list \<Rightarrow> uuid option list" where
  "filter_options depts = None # map (\<lambda>dept. Some (d_id dept)) depts"

text \<open>The departments the first migration inserts.\<close>

definition default_departments :: "department list" where
  "default_departments =
     [\<lparr>d_id = ''dept-1'', d_name = ''Computer Science'', d_code = ''CS''\<rparr>,
      \<lparr>d_id = ''dept-2'', d_name = ''Electronics'', d_code = ''EC''\<rparr>,
      \<lparr>d_id = ''dept-3'', d_name = ''Mechanical'', d_code = ''ME''\<rparr>,
      \<lparr>d_id = ''dept-4'', d_name = ''Civil'', d_code = ''CE''\<rparr>,
      \<lparr>d_id = ''dept-5'', d_name = ''Electrical'', d_code = ''EE''\<rparr>]"

section \<open>Example data\<close>

definition example_issue :: "uuid \<Rightarrow> uuid \<Rightarrow> uuid \<Rightarrow> timestamp \<Rightarrow> issue" where
  "example_issue iid rep dep t =
     \<lparr>i_id = iid, reporter_id = rep, department_id = dep, room_no = ''101'',
      item_id = ''fan-2'', title = ''Broken fan'', description = None, photo_url = None,
      status = pending, is_priority = False, reported_at = t,
      deadline = default_deadline t, resolved_at = None\<rparr>"

definition example_upvotes :: "uuid \<Rightarrow> uuid list \<Rightarrow> upvote list" where
  "example_upvotes iid voters = map (\<lambda>v. \<lparr>issue_id = iid, user_id = v\<rparr>) voters"

text \<open>
  A small college: a student, the head of Computer Science, a principal, and a member of
  staff who holds two roles; one resolved issue in Computer Science and one pending issue
  in Electronics, both reported by the student.
\<close>

definition example_db :: db where
  "example_db =
     \<lparr>departments = default_departments,
      profiles =
        [\<lparr>p_id = ''s1'', college_id = ''STU001'', full_name = ''Test Student'',
          email = ''student@bitdurg.ac.in'', p_department_id = Some ''dept-1''\<rparr>,
         \<lparr>p_id = ''h1'', college_id = ''HOD001'', full_name = ''HOD Computer Science'',
          email = ''hod@bitdurg.ac.in'', p_department_id = Some ''dept-1''\<rparr>,
         \<lparr>p_id = ''p1'', college_id = ''PRIN001'', full_name = ''Test Principal'',
          email = ''principal@bitdurg.ac.in'', p_department_id = None\<rparr>,
         \<lparr>p_id = ''m1'', college_id = ''HOD002'', full_name = ''Acting Principal'',
          email = ''acting@bitdurg.ac.in'', p_department_id = Some ''dept-2''\<rparr>],
      user_roles =
        [\<lparr>ur_user_id = ''s1'', ur_role = student\<rparr>,
         \<lparr>ur_user_id = ''h1'', ur_role = hod\<rparr>,
         \<lparr>ur_user_id = ''p1'', ur_role = principal\<rparr>,
         \<lparr>ur_user_id = ''m1'', ur_role = hod\<rparr>,
         \<lparr>ur_user_id = ''m1'', ur_role = principal\<rparr>],
      issues =
        [(example_issue ''i1'' ''s1'' ''dept-1'' 1000)\<lparr>status := work_done, resolved_at := Some 1500\<rparr>,
         example_issue ''i2'' ''s1'' ''dept-2'' 1200],
      upvotes = example_upvotes ''i1'' [''s1'', ''h1''] @ example_upvotes ''i2'' [''s1'']\<rparr>"



text \<open>A submission with a photo by the student, to a given department.\<close>

definition example_photo :: photo where
  "example_photo = \<lparr>photo_name = ''lathe.guard.jpg'', photo_bytes = ''JFIF''\<rparr>"

definition example_getPublicUrl :: "string \<Rightarrow> string" where
  "example_getPublicUrl key = ''https://storage.example/issue-photos/'' @ key"

definition example_submit :: "uuid \<Rightarrow> string option \<Rightarrow> outcome \<times> (string \<times> string) list \<times> db" where
  "example_submit dep net_upload =
     handleSubmitIssue example_getPublicUrl [] example_db (Some ''s1'') dep ''204'' ''lathe-7''
       ''Lathe guard missing'' ''The guard is gone'' (Some example_photo)
       1700000000123 ''i9'' 1700000000456 net_upload None"

section \<open>Properties\<close>

subsection \<open>Days remaining\<close>

lemma daysRemaining_div: "daysRemaining dl now = - ((now - dl) div 86400000)"
proof -
  have "daysRemaining dl now = \<lceil>real_of_int (dl - now) / real_of_int 86400000\<rceil>"
    by (simp add: daysRemaining_def)
  also have "\<dots> = - (- (dl - now) div 86400000)"
    by (rule ceiling_divide_eq_div)
  finally show ?thesis by simp
qed

text \<open>
  C10. The value shown as days remaining is \<open>ceil((deadline - now) / 1 day)\<close>; with the
  default deadline of thirty days after submission it is 30 at submission time, and it
  drops by exactly one with every 24 hours that pass.
\<close>

theorem daysRemaining_thirty_days:
  "daysRemaining dl now = \<lceil>(real_of_int dl - real_of_int now) / 86400000\<rceil>
   \<and> daysRemaining (default_deadline t) t = 30
   \<and> daysRemaining dl (now + 86400000) = daysRemaining dl now - 1
   \<and> daysRemaining (default_deadline t) (t + k * 86400000) = 30 - k"
proof -
  have formula: "daysRemaining dl now = \<lceil>(real_of_int dl - real_of_int now) / 86400000\<rceil>"
    by (simp add: daysRemaining_def)
  have at_submission: "daysRemaining (default_deadline t) t = 30"
    by (simp add: daysRemaining_div default_deadline_def)
  have "(now + 86400000 - dl) div 86400000 = (now - dl) div 86400000 + 1"
    by (simp add: algebra_simps)
  then have next_day: "daysRemaining dl (now + 86400000) = daysRemaining dl now - 1"
    by (simp add: daysRemaining_div)
  have after_k: "daysRemaining (default_deadline t) (t + k * 86400000) = 30 - k"
    by (simp add: daysRemaining_div default_deadline_def)
  from formula at_submission next_day after_k show ?thesis
    by blast
qed

text \<open>
  The card prints the value only in its "d left" badge, for an unresolved issue in its
  last week; at submission time, with the default deadline, there is no badge.
\<close>

lemma days_left_badge_shown:
  "days_left_badge i now = Some n \<Longrightarrow>
     n = daysRemaining (deadline i) now \<and> n \<le> 7 \<and> status i \<noteq> work_done"
  by (simp add: days_left_badge_def split: if_splits)

lemma days_left_badge_at_submission:
  "deadline i = default_deadline now \<Longrightarrow> days_left_badge i now = None"
  by (simp add: days_left_badge_def daysRemaining_div default_deadline_def)

subsection \<open>Feed order\<close>












text \<open>
  The example of the specification: counts 3, 1, 5, 3 in arrival order \<open>a, b, c, d\<close>
  come out as \<open>c\<close> (5), then \<open>a\<close> and \<open>d\<close> (3 each, \<open>a\<close> still before \<open>d\<close>), then
  \<open>b\<close> (1); the viewer \<open>u4\<close> has upvoted \<open>c\<close> and \<open>d\<close>.
\<close>

lemma issues_query_upvotes_example:
  "map (\<lambda>a. (i_id (issue a), upvoteCount a, hasUpvoted a))
     (issues_query upvotes_mode
        (example_upvotes ''a'' [''u1'', ''u2'', ''u3''] @ example_upvotes ''b'' [''u1'']
           @ example_upvotes ''c'' [''u1'', ''u2'', ''u3'', ''u4'', ''u5'']
           @ example_upvotes ''d'' [''u2'', ''u3'', ''u4''])
        (Some ''u4'')
        [example_issue ''a'' ''u1'' ''dept-1'' 400, example_issue ''b'' ''u1'' ''dept-1'' 300,
         example_issue ''c'' ''u1'' ''dept-1'' 200, example_issue ''d'' ''u1'' ''dept-1'' 100])
   = [(''c'', 5, True), (''a'', 3, False), (''d'', 3, True), (''b'', 1, False)]"
  by (simp add: issues_query_def select_issues_def array_sort_def with_upvotes_def
        count_upvotes_def userUpvote_def single_def example_issue_def example_upvotes_def)

subsection \<open>Status changes\<close>

lemmas example_defs =
  example_db_def example_issue_def example_upvotes_def default_departments_def default_deadline_def

lemmas policy_defs =
  issues_update_policy_def hods_can_update_issues_in_their_department_def
  principals_can_update_any_issue_def has_role_def

lemma handleStatusChange_issues:
  "issues (snd (handleStatusChange d auth issueId newStatus now None)) =
     map (\<lambda>i. if i_id i = issueId \<and> issues_update_policy d auth i
               then i\<lparr>status := newStatus,
                      resolved_at := (if newStatus = work_done then Some now else resolved_at i)\<rparr>
               else i) (issues d)"
  by (simp add: handleStatusChange_def update_issues_def)

lemma handleStatusChange_failed:
  "handleStatusChange d auth issueId newStatus now (Some m)
     = (Failed ''Update Failed'' (request_failed m), d)"
  by (simp add: handleStatusChange_def update_issues_def)

text \<open>
  C1, as stated, fails: the principal moves the resolved issue \<open>i1\<close> back to pending. The
  update succeeds, the status is pending, and \<open>resolved_at\<close> still holds the time of the
  earlier resolution.
\<close>

theorem handleStatusChange_keeps_resolved_at_counterexample:
  "map status (issues example_db) = [work_done, pending]
   \<and> map resolved_at (issues example_db) = [Some 1500, None]
   \<and> fst (handleStatusChange example_db (Some ''p1'') ''i1'' pending 2000 None)
       = Succeeded (Some (''Status Updated'', ''Issue status has been updated successfully.''))
   \<and> map status (issues (snd (handleStatusChange example_db (Some ''p1'') ''i1'' pending 2000 None)))
       = [pending, pending]
   \<and> map resolved_at
         (issues (snd (handleStatusChange example_db (Some ''p1'') ''i1'' pending 2000 None)))
       = [Some 1500, None]"
  by (simp add: handleStatusChange_def update_issues_def example_defs policy_defs)

text \<open>
  C1, amended. The status change writes the status and, when the new status is
  \<open>work_done\<close>, \<open>resolved_at = now\<close> in one update of the row; for any other status
  it leaves \<open>resolved_at\<close> as it was. So every status change, whoever attempts it and
  whether or not the request completes, preserves "\<open>status = work_done\<close> implies
  \<open>resolved_at\<close> is not null".
\<close>

theorem handleStatusChange_resolved_at:
  "(i \<in> set (issues d) \<and> i_id i = issueId \<and> issues_update_policy d auth i \<longrightarrow>
      i\<lparr>status := newStatus,
        resolved_at := (if newStatus = work_done then Some now else resolved_at i)\<rparr>
        \<in> set (issues (snd (handleStatusChange d auth issueId newStatus now None))))
   \<and> (list_all (\<lambda>j. status j = work_done \<longrightarrow> resolved_at j \<noteq> None) (issues d) \<longrightarrow>
      list_all (\<lambda>j. status j = work_done \<longrightarrow> resolved_at j \<noteq> None)
        (issues (snd (handleStatusChange d auth issueId newStatus now net))))"
proof (intro conjI impI)
  assume "i \<in> set (issues d) \<and> i_id i = issueId \<and> issues_update_policy d auth i"
  then show "i\<lparr>status := newStatus,
        resolved_at := (if newStatus = work_done then Some now else resolved_at i)\<rparr>
        \<in> set (issues (snd (handleStatusChange d auth issueId newStatus now None)))"
    unfolding handleStatusChange_issues by force
next
  assume inv: "list_all (\<lambda>j. status j = work_done \<longrightarrow> resolved_at j \<noteq> None) (issues d)"
  show "list_all (\<lambda>j. status j = work_done \<longrightarrow> resolved_at j \<noteq> None)
      (issues (snd (handleStatusChange d auth issueId newStatus now net)))"
  proof (cases net)
    case None
    with inv show ?thesis
      unfolding None handleStatusChange_issues list_all_iff by auto
  next
    case (Some m)
    with inv show ?thesis
      by (simp add: handleStatusChange_failed)
  qed
qed

theorem handleStatusChange_resolved_at_witness:
  "example_issue ''i2'' ''s1'' ''dept-2'' 1200 \<in> set (issues example_db)
   \<and> issues_update_policy example_db (Some ''p1'') (example_issue ''i2'' ''s1'' ''dept-2'' 1200)
   \<and> list_all (\<lambda>j. status j = work_done \<longrightarrow> resolved_at j \<noteq> None) (issues example_db)
   \<and> (example_issue ''i2'' ''s1'' ''dept-2'' 1200)\<lparr>status := work_done, resolved_at := Some 2000\<rparr>
        \<in> set (issues (snd (handleStatusChange example_db (Some ''p1'') ''i2'' work_done 2000 None)))
   \<and> list_all (\<lambda>j. status j = work_done \<longrightarrow> resolved_at j \<noteq> None)
        (issues (snd (handleStatusChange example_db (Some ''p1'') ''i2'' work_done 2000 None)))"
proof -
  have row: "example_issue ''i2'' ''s1'' ''dept-2'' 1200 \<in> set (issues example_db)"
    by (simp add: example_defs)
  have ident: "i_id (example_issue ''i2'' ''s1'' ''dept-2'' 1200) = ''i2''"
    by (simp add: example_defs)
  have allowed:
    "issues_update_policy example_db (Some ''p1'') (example_issue ''i2'' ''s1'' ''dept-2'' 1200)"
    by (simp add: example_defs policy_defs)
  have inv: "list_all (\<lambda>j. status j = work_done \<longrightarrow> resolved_at j \<noteq> None) (issues example_db)"
    by (simp add: example_defs)
  from handleStatusChange_resolved_at
    [of "example_issue ''i2'' ''s1'' ''dept-2'' 1200" example_db "''i2''" "Some ''p1''"
        work_done 2000 None]
    row ident allowed inv
  show ?thesis by simp
qed

text \<open>
  The data layer enforces the update policy: when no row with the given id passes it,
  the status change writes nothing. It also reports nothing: the response has no error
  and the handler shows its success toast.
\<close>

lemma handleStatusChange_denied:
  assumes "\<And>i. i \<in> set (issues d) \<Longrightarrow> i_id i = issueId \<Longrightarrow> \<not> issues_update_policy d auth i"
  shows "handleStatusChange d auth issueId newStatus now None
    = (Succeeded (Some (''Status Updated'', ''Issue status has been updated successfully.'')), d)"
proof -
  have "map (\<lambda>i. if i_id i = issueId \<and> issues_update_policy d auth i
                 then i\<lparr>status := newStatus,
                        resolved_at := (case (if newStatus = work_done then Some now else None) of
                                          None \<Rightarrow> resolved_at i | Some t \<Rightarrow> Some t)\<rparr>
                 else i) (issues d) = issues d"
    using assms by (intro map_idI) auto
  then show ?thesis
    unfolding handleStatusChange_def update_issues_def by simp
qed

text \<open>
  C2 at the failing input: the head of Computer Science sets the Electronics issue
  \<open>i2\<close> to \<open>work_done\<close>. The update policy rejects the row, no row changes, and the
  handler reports "Status Updated".
\<close>

theorem handleStatusChange_denied_reports_success:
  "issues_update_policy example_db (Some ''h1'') (example_issue ''i2'' ''s1'' ''dept-2'' 1200) = False
   \<and> handleStatusChange example_db (Some ''h1'') ''i2'' work_done 2000 None
     = (Succeeded (Some (''Status Updated'', ''Issue status has been updated successfully.'')),
        example_db)"
  by (simp add: handleStatusChange_def update_issues_def example_defs policy_defs)

subsection \<open>Roles and departments\<close>

text \<open>
  C8 at the failing input: \<open>m1\<close> holds the roles \<open>hod\<close> and \<open>principal\<close>. Both
  dashboards admit \<open>m1\<close>, and the header's role query, which asks for a single row,
  yields no role, so the header shows neither dashboard link.
\<close>

theorem userRole_two_roles:
  "has_role example_db ''m1'' hod
   \<and> has_role example_db ''m1'' principal
   \<and> hasHodRole example_db (Some ''m1'') None
   \<and> hasPrincipalRole example_db (Some ''m1'') None
   \<and> userRole example_db (Some ''m1'') None = None
   \<and> hod_link (userRole example_db (Some ''m1'') None) = False
   \<and> principal_link (userRole example_db (Some ''m1'') None) = False"
  by (simp add: userRole_def hod_link_def principal_link_def hasHodRole_def hasPrincipalRole_def
        has_dashboard_role_def users_can_view_roles_def single_def has_role_def example_defs)

text \<open>
  C9 at the failing input: with the departments the migration inserts, the Principal
  dashboard's department list, statistics and filter leave out Electronics and Civil,
  while its issue list holds the Electronics issue \<open>i2\<close>.
\<close>

theorem principal_departments_query_default_departments:
  "map d_code (departments example_db) = [''CS'', ''EC'', ''ME'', ''CE'', ''EE'']
   \<and> map d_code (departments_query example_db) = [''CE'', ''CS'', ''EE'', ''EC'', ''ME'']
   \<and> map d_code (principal_departments_query example_db) = [''CS'', ''EE'', ''ME'']
   \<and> filter_options (principal_departments_query example_db)
       = [None, Some ''dept-1'', Some ''dept-5'', Some ''dept-3'']
   \<and> map fst (departmentStats (principal_departments_query example_db)
                 (principal_issues_query example_db None))
       = principal_departments_query example_db
   \<and> map department_id (principal_issues_query example_db None) = [''dept-2'', ''dept-1'']"
  by (simp add: departments_query_def principal_departments_query_def filter_options_def
        departmentStats_def principal_issues_query_def example_defs)

subsection \<open>Upvotes\<close>

text \<open>
  C5, as stated, fails in its last part: the student has upvoted \<open>i1\<close>, the card was
  rendered with \<open>hasUpvoted = false\<close>, and the click's insert comes back with the
  unique violation. The handler shows it as an error and does not call
  \<open>onUpvoteChange\<close>.
\<close>

theorem handleUpvote_duplicate_counterexample:
  "handleUpvote example_db (Some ''s1'') ''i1'' False None
     = (Failed ''Error'' unique_violation, example_db)"
  by (simp add: handleUpvote_def insert_upvote_def example_defs)

lemma insert_upvote_upvotes:
  "upvotes (snd (insert_upvote d auth row net)) = upvotes d
   \<or> (upvotes (snd (insert_upvote d auth row net)) = upvotes d @ [row]
       \<and> \<not> list_ex (\<lambda>u. issue_id u = issue_id row \<and> user_id u = user_id row) (upvotes d))"
  by (simp add: insert_upvote_def split: option.splits)

lemma insert_upvote_keeps_unique:
  assumes "distinct (map (\<lambda>u. (issue_id u, user_id u)) (upvotes d))"
  shows "distinct (map (\<lambda>u. (issue_id u, user_id u)) (upvotes (snd (insert_upvote d auth row net))))"
proof -
  from insert_upvote_upvotes [of d auth row net] show ?thesis
  proof
    assume "upvotes (snd (insert_upvote d auth row net)) = upvotes d"
    with assms show ?thesis by simp
  next
    assume fresh: "upvotes (snd (insert_upvote d auth row net)) = upvotes d @ [row]
       \<and> \<not> list_ex (\<lambda>u. issue_id u = issue_id row \<and> user_id u = user_id row) (upvotes d)"
    then have "(issue_id row, user_id row) \<notin> set (map (\<lambda>u. (issue_id u, user_id u)) (upvotes d))"
      by (auto simp: list_ex_iff)
    with assms fresh show ?thesis by simp
  qed
qed

text \<open>
  C5, amended. There is at most one upvote row for an (issue, user) pair: no insert ever
  creates a second one, and an insert for a pair that has a row comes back with the unique
  violation and changes nothing. The upvote handler shows that error to the user; it does
  not treat it as a success.
\<close>

theorem insert_upvote_duplicate:
  "(list_ex (\<lambda>u. issue_id u = iid \<and> user_id u = uid) (upvotes d) \<longrightarrow>
      insert_upvote d (Some uid) \<lparr>issue_id = iid, user_id = uid\<rparr> None = (Some unique_violation, d)
      \<and> handleUpvote d (Some uid) iid False None = (Failed ''Error'' unique_violation, d))
   \<and> (distinct (map (\<lambda>u. (issue_id u, user_id u)) (upvotes d)) \<longrightarrow>
      distinct (map (\<lambda>u. (issue_id u, user_id u)) (upvotes (snd (insert_upvote d auth row net)))))"
  using insert_upvote_keeps_unique [of d auth row net]
  by (simp add: insert_upvote_def handleUpvote_def)

theorem insert_upvote_duplicate_witness:
  "list_ex (\<lambda>u. issue_id u = ''i2'' \<and> user_id u = ''s1'') (upvotes example_db)
   \<and> insert_upvote example_db (Some ''s1'') \<lparr>issue_id = ''i2'', user_id = ''s1''\<rparr> None
       = (Some unique_violation, example_db)
   \<and> handleUpvote example_db (Some ''s1'') ''i2'' False None
       = (Failed ''Error'' unique_violation, example_db)
   \<and> distinct (map (\<lambda>u. (issue_id u, user_id u)) (upvotes example_db))
   \<and> distinct (map (\<lambda>u. (issue_id u, user_id u))
        (upvotes (snd (insert_upvote example_db (Some ''h1'')
           \<lparr>issue_id = ''i2'', user_id = ''h1''\<rparr> None))))
   \<and> length (upvotes (snd (insert_upvote example_db (Some ''h1'')
           \<lparr>issue_id = ''i2'', user_id = ''h1''\<rparr> None))) = 4"
proof -
  have present: "list_ex (\<lambda>u. issue_id u = ''i2'' \<and> user_id u = ''s1'') (upvotes example_db)"
    by (simp add: example_db_def example_upvotes_def)
  have unique: "distinct (map (\<lambda>u. (issue_id u, user_id u)) (upvotes example_db))"
    by (simp add: example_db_def example_upvotes_def)
  have added: "length (upvotes (snd (insert_upvote example_db (Some ''h1'')
           \<lparr>issue_id = ''i2'', user_id = ''h1''\<rparr> None))) = 4"
    by (simp add: insert_upvote_def example_db_def example_upvotes_def example_issue_def)
  from insert_upvote_duplicate
    [of "''i2''" "''s1''" example_db "Some ''h1''" "\<lparr>issue_id = ''i2'', user_id = ''h1''\<rparr>" None]
    present unique added
  show ?thesis by blast
qed


subsection \<open>Issue submission\<close>

text \<open>
  C6. With a photo, a failed upload ends the submission with the storage error and
  leaves the issues table as it was; after a successful upload, a submission that
  succeeds has added exactly one row, and its \<open>photo_url\<close> is the public URL of the
  uploaded object. If the insert fails after the upload, no row is added either.
\<close>

theorem handleSubmitIssue_photo:
  "handleSubmitIssue getPublicUrl objects d user departmentId roomNo itemId ttl descr (Some ph)
       now new_id db_now (Some m) net_insert
     = (Failed ''Error'' (StorageError m), objects, d)
   \<and> (fst (handleSubmitIssue getPublicUrl objects d user departmentId roomNo itemId ttl descr
            (Some ph) now new_id db_now None net_insert) = Succeeded s \<longrightarrow>
       (\<exists>row. issues (snd (snd (handleSubmitIssue getPublicUrl objects d user departmentId roomNo
                  itemId ttl descr (Some ph) now new_id db_now None net_insert))) = issues d @ [row]
          \<and> i_id row = new_id
          \<and> photo_url row = Some (getPublicUrl (fileName user now ph)))
       \<and> fst (snd (handleSubmitIssue getPublicUrl objects d user departmentId roomNo
                  itemId ttl descr (Some ph) now new_id db_now None net_insert))
           = objects @ [(fileName user now ph, photo_bytes ph)])
   \<and> (fst (handleSubmitIssue getPublicUrl objects d user departmentId roomNo itemId ttl descr
            (Some ph) now new_id db_now None net_insert) = Failed t e \<longrightarrow>
       snd (snd (handleSubmitIssue getPublicUrl objects d user departmentId roomNo
                  itemId ttl descr (Some ph) now new_id db_now None net_insert)) = d)"
  by (simp add: handleSubmitIssue_def upload_def insert_issue_def split: option.splits)

theorem handleSubmitIssue_photo_witness:
  "fst (example_submit ''dept-3'' None)
     = Succeeded (Some (''Issue reported'', ''Your issue has been successfully reported.''))
   \<and> map photo_url (issues (snd (snd (example_submit ''dept-3'' None))))
     = [None, None, Some ''https://storage.example/issue-photos/s1/1700000000123.jpg'']
   \<and> example_submit ''dept-3'' (Some ''Bucket not found'')
     = (Failed ''Error'' (StorageError ''Bucket not found''), [], example_db)
   \<and> fst (example_submit ''dept-9'' None) = Failed ''Error'' foreign_key_violation
   \<and> snd (snd (example_submit ''dept-9'' None)) = example_db"
proof -
  have name: "fileName (Some ''s1'') 1700000000123 example_photo = ''s1/1700000000123.jpg''"
    by (simp add: fileName_def number_string_def digits_of.simps example_photo_def)
  have ok: "fst (example_submit ''dept-3'' None)
      = Succeeded (Some (''Issue reported'', ''Your issue has been successfully reported.''))"
    by (simp add: example_submit_def handleSubmitIssue_def upload_def insert_issue_def
          example_db_def example_issue_def default_departments_def)
  have bad: "fst (example_submit ''dept-9'' None) = Failed ''Error'' foreign_key_violation"
    by (simp add: example_submit_def handleSubmitIssue_def upload_def insert_issue_def
          example_db_def example_issue_def default_departments_def)
  note inst = handleSubmitIssue_photo
    [of example_getPublicUrl "[]" example_db "Some ''s1''" _ "''204''" "''lathe-7''"
        "''Lathe guard missing''" "''The guard is gone''" example_photo 1700000000123 "''i9''"
        1700000000456 "''Bucket not found''" None
        "Some (''Issue reported'', ''Your issue has been successfully reported.'')"
        "''Error''" foreign_key_violation, folded example_submit_def]
  from inst [of "''dept-3''"] ok
  obtain row where
    aborted: "example_submit ''dept-3'' (Some ''Bucket not found'')
      = (Failed ''Error'' (StorageError ''Bucket not found''), [], example_db)"
    and rows: "issues (snd (snd (example_submit ''dept-3'' None))) = issues example_db @ [row]"
    and url: "photo_url row
      = Some (example_getPublicUrl (fileName (Some ''s1'') 1700000000123 example_photo))"
    by blast
  have urls: "map photo_url (issues (snd (snd (example_submit ''dept-3'' None))))
      = [None, None, Some ''https://storage.example/issue-photos/s1/1700000000123.jpg'']"
    unfolding rows
    by (simp add: url name example_getPublicUrl_def) (simp add: example_db_def example_issue_def)
  from inst [of "''dept-9''"] bad
  have unchanged: "snd (snd (example_submit ''dept-9'' None)) = example_db"
    by blast
  from ok urls aborted bad unchanged show ?thesis
    by blast
qed

subsection \<open>Upvote toggle\<close>

lemma at_most_one_row:
  assumes "distinct (map f xs)"
  shows "length (filter (\<lambda>x. f x = k) xs) \<le> 1"
  using assms
proof (induction xs)
  case Nil
  then show ?case by simp
next
  case (Cons x xs)
  show ?case
  proof (cases "f x = k")
    case True
    with Cons.prems have "\<forall>y \<in> set xs. f y \<noteq> k" by (metis distinct.simps(2) imageI list.simps(9) set_map)
    then have "filter (\<lambda>x. f x = k) xs = []"
      by (simp add: filter_empty_conv)
    with True show ?thesis by simp
  next
    case False
    with Cons show ?thesis by simp
  qed
qed

lemma single_filter_unique:
  assumes "distinct (map (\<lambda>u. (issue_id u, user_id u)) ups)"
  shows "(single (filter (\<lambda>u. issue_id u = a \<and> user_id u = b) ups) \<noteq> None)
    = list_ex (\<lambda>u. issue_id u = a \<and> user_id u = b) ups"
proof -
  have same: "filter (\<lambda>u. issue_id u = a \<and> user_id u = b) ups
      = filter (\<lambda>u. (issue_id u, user_id u) = (a, b)) ups"
    by (intro filter_cong) auto
  from at_most_one_row [OF assms, of "(a, b)"]
  have short: "length (filter (\<lambda>u. issue_id u = a \<and> user_id u = b) ups) \<le> 1"
    by (simp only: same)
  show ?thesis
  proof (cases "filter (\<lambda>u. issue_id u = a \<and> user_id u = b) ups")
    case Nil
    then show ?thesis
      by (simp add: single_def list_ex_iff filter_empty_conv)
  next
    case (Cons r rs)
    with short have "rs = []" by simp
    with Cons have one: "filter (\<lambda>u. issue_id u = a \<and> user_id u = b) ups = [r]" by simp
    then have "r \<in> set (filter (\<lambda>u. issue_id u = a \<and> user_id u = b) ups)" by simp
    then have "list_ex (\<lambda>u. issue_id u = a \<and> user_id u = b) ups"
      by (auto simp: list_ex_iff)
    with one show ?thesis
      by (simp add: single_def)
  qed
qed

lemma hasUpvoted_with_upvotes:
  assumes "distinct (map (\<lambda>u. (issue_id u, user_id u)) ups)"
  shows "hasUpvoted (with_upvotes ups (Some uid) i)
    = list_ex (\<lambda>u. issue_id u = i_id i \<and> user_id u = uid) ups"
proof -
  have "hasUpvoted (with_upvotes ups (Some uid) i)
      = (single (filter (\<lambda>u. issue_id u = i_id i \<and> user_id u = uid) ups) \<noteq> None)"
    by (simp add: with_upvotes_def userUpvote_def del: not_None_eq)
  then show ?thesis
    by (simp only: single_filter_unique [OF assms])
qed

lemma upvoteCount_with_upvotes:
  "upvoteCount (with_upvotes ups viewer i) = int (length (filter (\<lambda>u. issue_id u = i_id i) ups))"
  by (simp add: with_upvotes_def count_upvotes_def)

lemma count_without_own_row:
  assumes "distinct (map (\<lambda>u. (issue_id u, user_id u)) ups)"
    and "list_ex (\<lambda>u. issue_id u = a \<and> user_id u = b) ups"
  shows "length (filter (\<lambda>u. issue_id u = a)
        (filter (\<lambda>u. \<not> (issue_id u = a \<and> user_id u = b)) ups)) + 1
    = length (filter (\<lambda>u. issue_id u = a) ups)"
proof -
  from single_filter_unique [OF assms(1), of a b] assms(2)
  have "single (filter (\<lambda>u. issue_id u = a \<and> user_id u = b) ups) \<noteq> None" by simp
  then have one: "length (filter (\<lambda>u. issue_id u = a \<and> user_id u = b) ups) = 1"
    by (auto simp: single_def split: list.splits)
  have "length (filter (\<lambda>u. issue_id u = a) ups)
      = length (filter (\<lambda>u. user_id u = b) (filter (\<lambda>u. issue_id u = a) ups))
        + length (filter (\<lambda>u. \<not> user_id u = b) (filter (\<lambda>u. issue_id u = a) ups))"
    by (simp only: sum_length_filter_compl)
  also have "filter (\<lambda>u. user_id u = b) (filter (\<lambda>u. issue_id u = a) ups)
      = filter (\<lambda>u. issue_id u = a \<and> user_id u = b) ups"
    by (simp add: conj_commute)
  also have "filter (\<lambda>u. \<not> user_id u = b) (filter (\<lambda>u. issue_id u = a) ups)
      = filter (\<lambda>u. issue_id u = a) (filter (\<lambda>u. \<not> (issue_id u = a \<and> user_id u = b)) ups)"
    by (simp add: conj_commute) (intro filter_cong, auto)
  finally show ?thesis
    using one by simp
qed

lemma click_upvote_remove:
  assumes "list_ex (\<lambda>u. issue_id u = i_id i \<and> user_id u = uid) (upvotes d)"
    and "distinct (map (\<lambda>u. (issue_id u, user_id u)) (upvotes d))"
  shows "click_upvote d uid i
    = (Succeeded None,
       d\<lparr>upvotes := filter (\<lambda>u. \<not> (issue_id u = i_id i \<and> user_id u = uid)) (upvotes d)\<rparr>)"
proof -
  have same: "filter (\<lambda>u. \<not> (issue_id u = i_id i \<and> user_id u = uid \<and> Some uid = Some (user_id u)))
        (upvotes d)
      = filter (\<lambda>u. \<not> (issue_id u = i_id i \<and> user_id u = uid)) (upvotes d)"
    by (intro filter_cong) auto
  show ?thesis
    unfolding click_upvote_def handleUpvote_def delete_upvotes_def
      hasUpvoted_with_upvotes [OF assms(2)] same
    using assms(1) by simp
qed

lemma click_upvote_add:
  assumes "\<not> list_ex (\<lambda>u. issue_id u = i_id i \<and> user_id u = uid) (upvotes d)"
    and "distinct (map (\<lambda>u. (issue_id u, user_id u)) (upvotes d))"
    and "list_ex (\<lambda>j. i_id j = i_id i) (issues d)" and "list_ex (\<lambda>p. p_id p = uid) (profiles d)"
  shows "click_upvote d uid i
    = (Succeeded None, d\<lparr>upvotes := upvotes d @ [\<lparr>issue_id = i_id i, user_id = uid\<rparr>]\<rparr>)"
  unfolding click_upvote_def handleUpvote_def insert_upvote_def
    hasUpvoted_with_upvotes [OF assms(2)]
  using assms(1,3,4) by simp

text \<open>
  C3. A click on the upvote button of a card rendered from the current state deletes the
  user's upvote row for the issue when there is one and inserts it otherwise. After two
  such clicks by the same user on the same issue, with the card rendered anew in between,
  \<open>hasUpvoted\<close> and \<open>upvoteCount\<close> are what they were.
\<close>

theorem click_upvote_twice:
  assumes "list_ex (\<lambda>j. i_id j = i_id i) (issues d)"
    and "list_ex (\<lambda>p. p_id p = uid) (profiles d)"
    and "distinct (map (\<lambda>u. (issue_id u, user_id u)) (upvotes d))"
  shows "click_upvote d uid i
      = (Succeeded None,
         d\<lparr>upvotes :=
             (if list_ex (\<lambda>u. issue_id u = i_id i \<and> user_id u = uid) (upvotes d)
              then filter (\<lambda>u. \<not> (issue_id u = i_id i \<and> user_id u = uid)) (upvotes d)
              else upvotes d @ [\<lparr>issue_id = i_id i, user_id = uid\<rparr>])\<rparr>)
    \<and> hasUpvoted (with_upvotes (upvotes (snd (click_upvote d uid i))) (Some uid) i)
        = (\<not> hasUpvoted (with_upvotes (upvotes d) (Some uid) i))
    \<and> fst (click_upvote (snd (click_upvote d uid i)) uid i) = Succeeded None
    \<and> hasUpvoted (with_upvotes (upvotes (snd (click_upvote (snd (click_upvote d uid i)) uid i)))
          (Some uid) i)
        = hasUpvoted (with_upvotes (upvotes d) (Some uid) i)
    \<and> upvoteCount (with_upvotes (upvotes (snd (click_upvote (snd (click_upvote d uid i)) uid i)))
          (Some uid) i)
        = upvoteCount (with_upvotes (upvotes d) (Some uid) i)"
proof (cases "list_ex (\<lambda>u. issue_id u = i_id i \<and> user_id u = uid) (upvotes d)")
  case True
  let ?d1 = "d\<lparr>upvotes := filter (\<lambda>u. \<not> (issue_id u = i_id i \<and> user_id u = uid)) (upvotes d)\<rparr>"
  let ?d2 = "?d1\<lparr>upvotes := upvotes ?d1 @ [\<lparr>issue_id = i_id i, user_id = uid\<rparr>]\<rparr>"
  have first: "click_upvote d uid i = (Succeeded None, ?d1)"
    using True assms(3) by (rule click_upvote_remove)
  have gone: "\<not> list_ex (\<lambda>u. issue_id u = i_id i \<and> user_id u = uid) (upvotes ?d1)"
    by (simp add: list_ex_iff)
  have unique1: "distinct (map (\<lambda>u. (issue_id u, user_id u)) (upvotes ?d1))"
    using assms(3) by (simp add: distinct_map_filter)
  have second: "click_upvote ?d1 uid i = (Succeeded None, ?d2)"
    using gone unique1 assms(1,2) by (intro click_upvote_add) simp_all
  have "(issue_id \<lparr>issue_id = i_id i, user_id = uid\<rparr>, user_id \<lparr>issue_id = i_id i, user_id = uid\<rparr>)
      \<notin> set (map (\<lambda>u. (issue_id u, user_id u)) (upvotes ?d1))"
    by auto
  with unique1 have unique2: "distinct (map (\<lambda>u. (issue_id u, user_id u)) (upvotes ?d2))"
    by simp
  have again: "list_ex (\<lambda>u. issue_id u = i_id i \<and> user_id u = uid) (upvotes ?d2)"
    by simp
  have count: "length (filter (\<lambda>u. issue_id u = i_id i) (upvotes ?d2))
      = length (filter (\<lambda>u. issue_id u = i_id i) (upvotes d))"
    using count_without_own_row [OF assms(3) True] by simp
  show ?thesis
    unfolding first snd_conv second fst_conv
      hasUpvoted_with_upvotes [OF assms(3)] hasUpvoted_with_upvotes [OF unique1]
      hasUpvoted_with_upvotes [OF unique2] upvoteCount_with_upvotes count
    using True gone again by simp
next
  case False
  let ?d1 = "d\<lparr>upvotes := upvotes d @ [\<lparr>issue_id = i_id i, user_id = uid\<rparr>]\<rparr>"
  let ?d2 = "?d1\<lparr>upvotes := filter (\<lambda>u. \<not> (issue_id u = i_id i \<and> user_id u = uid)) (upvotes ?d1)\<rparr>"
  have first: "click_upvote d uid i = (Succeeded None, ?d1)"
    using False assms(3,1,2) by (rule click_upvote_add)
  from False have "(i_id i, uid) \<notin> set (map (\<lambda>u. (issue_id u, user_id u)) (upvotes d))"
    by (auto simp: list_ex_iff)
  with assms(3) have unique1: "distinct (map (\<lambda>u. (issue_id u, user_id u)) (upvotes ?d1))"
    by simp
  have there: "list_ex (\<lambda>u. issue_id u = i_id i \<and> user_id u = uid) (upvotes ?d1)"
    by simp
  have second: "click_upvote ?d1 uid i = (Succeeded None, ?d2)"
    using there unique1 by (rule click_upvote_remove)
  from False have "filter (\<lambda>u. \<not> (issue_id u = i_id i \<and> user_id u = uid)) (upvotes d) = upvotes d"
    by (auto simp: list_ex_iff filter_id_conv)
  then have restored: "upvotes ?d2 = upvotes d"
    by simp
  show ?thesis
    unfolding first snd_conv second fst_conv restored
      hasUpvoted_with_upvotes [OF assms(3)] hasUpvoted_with_upvotes [OF unique1]
    using False there by simp
qed

theorem click_upvote_twice_witness:
  "list_ex (\<lambda>j. i_id j = i_id (example_issue ''i2'' ''s1'' ''dept-2'' 1200)) (issues example_db)
   \<and> list_ex (\<lambda>p. p_id p = ''h1'') (profiles example_db)
   \<and> distinct (map (\<lambda>u. (issue_id u, user_id u)) (upvotes example_db))
   \<and> upvotes (snd (click_upvote example_db ''h1'' (example_issue ''i2'' ''s1'' ''dept-2'' 1200)))
       = upvotes example_db @ [\<lparr>issue_id = ''i2'', user_id = ''h1''\<rparr>]
   \<and> \<not> hasUpvoted (with_upvotes (upvotes example_db) (Some ''h1'')
         (example_issue ''i2'' ''s1'' ''dept-2'' 1200))
   \<and> hasUpvoted (with_upvotes
         (upvotes (snd (click_upvote example_db ''h1'' (example_issue ''i2'' ''s1'' ''dept-2'' 1200))))
         (Some ''h1'') (example_issue ''i2'' ''s1'' ''dept-2'' 1200))
   \<and> \<not> hasUpvoted (with_upvotes
         (upvotes (snd (click_upvote
            (snd (click_upvote example_db ''h1'' (example_issue ''i2'' ''s1'' ''dept-2'' 1200)))
            ''h1'' (example_issue ''i2'' ''s1'' ''dept-2'' 1200))))
         (Some ''h1'') (example_issue ''i2'' ''s1'' ''dept-2'' 1200))
   \<and> upvoteCount (with_upvotes
         (upvotes (snd (click_upvote
            (snd (click_upvote example_db ''h1'' (example_issue ''i2'' ''s1'' ''dept-2'' 1200)))
            ''h1'' (example_issue ''i2'' ''s1'' ''dept-2'' 1200))))
         (Some ''h1'') (example_issue ''i2'' ''s1'' ''dept-2'' 1200)) = 1"
proof -
  let ?i = "example_issue ''i2'' ''s1'' ''dept-2'' 1200"
  let ?d1 = "snd (click_upvote example_db ''h1'' ?i)"
  let ?d2 = "snd (click_upvote ?d1 ''h1'' ?i)"
  have row: "list_ex (\<lambda>j. i_id j = i_id ?i) (issues example_db)"
    by (simp add: example_db_def example_issue_def)
  have user: "list_ex (\<lambda>p. p_id p = ''h1'') (profiles example_db)"
    by (simp add: example_db_def)
  have unique: "distinct (map (\<lambda>u. (issue_id u, user_id u)) (upvotes example_db))"
    by (simp add: example_db_def example_upvotes_def)
  have before: "\<not> hasUpvoted (with_upvotes (upvotes example_db) (Some ''h1'') ?i)"
    by (simp add: with_upvotes_def userUpvote_def single_def example_db_def example_upvotes_def
          example_issue_def)
  have count: "upvoteCount (with_upvotes (upvotes example_db) (Some ''h1'') ?i) = 1"
    by (simp add: with_upvotes_def count_upvotes_def example_db_def example_upvotes_def
          example_issue_def)
  have absent: "\<not> list_ex (\<lambda>u. issue_id u = i_id ?i \<and> user_id u = ''h1'') (upvotes example_db)"
    by (simp add: example_db_def example_upvotes_def example_issue_def)
  have ident: "i_id ?i = ''i2''"
    by (simp add: example_issue_def)
  note inst = click_upvote_twice [OF row user unique]
  from inst have "click_upvote example_db ''h1'' ?i
      = (Succeeded None,
         example_db\<lparr>upvotes :=
             (if list_ex (\<lambda>u. issue_id u = i_id ?i \<and> user_id u = ''h1'') (upvotes example_db)
              then filter (\<lambda>u. \<not> (issue_id u = i_id ?i \<and> user_id u = ''h1'')) (upvotes example_db)
              else upvotes example_db @ [\<lparr>issue_id = i_id ?i, user_id = ''h1''\<rparr>])\<rparr>)"
    by (rule conjunct1)
  with absent have added: "upvotes ?d1 = upvotes example_db @ [\<lparr>issue_id = ''i2'', user_id = ''h1''\<rparr>]"
    by (simp add: ident)
  from inst have "hasUpvoted (with_upvotes (upvotes ?d1) (Some ''h1'') ?i)
      = (\<not> hasUpvoted (with_upvotes (upvotes example_db) (Some ''h1'') ?i))"
    by (rule conjunct2 [THEN conjunct1])
  with before have once: "hasUpvoted (with_upvotes (upvotes ?d1) (Some ''h1'') ?i)"
    by blast
  from inst have "hasUpvoted (with_upvotes (upvotes ?d2) (Some ''h1'') ?i)
      = hasUpvoted (with_upvotes (upvotes example_db) (Some ''h1'') ?i)"
    by (rule conjunct2 [THEN conjunct2, THEN conjunct2, THEN conjunct1])
  with before have twice: "\<not> hasUpvoted (with_upvotes (upvotes ?d2) (Some ''h1'') ?i)"
    by blast
  from inst have "upvoteCount (with_upvotes (upvotes ?d2) (Some ''h1'') ?i)
      = upvoteCount (with_upvotes (upvotes example_db) (Some ''h1'') ?i)"
    by (rule conjunct2 [THEN conjunct2, THEN conjunct2, THEN conjunct2])
  then have counted: "upvoteCount (with_upvotes (upvotes ?d2) (Some ''h1'') ?i) = 1"
    using count by (rule trans)
  from row user unique added before once twice counted show ?thesis
    by (intro conjI)
qed

subsection \<open>Deletion\<close>

lemma rows_with_id:
  assumes "i \<in> set xs" and "distinct (map i_id xs)"
  shows "filter (\<lambda>j. i_id j = i_id i) xs = [i]"
  using assms
proof (induction xs)
  case Nil
  then show ?case by simp
next
  case (Cons x xs)
  show ?case
  proof (cases "x = i")
    case True
    with Cons.prems have "i_id i \<notin> i_id ` set xs" by simp
    then have "\<forall>j \<in> set xs. i_id j \<noteq> i_id i" by (metis imageI)
    then have "filter (\<lambda>j. i_id j = i_id i) xs = []"
      by (simp add: filter_empty_conv)
    with True show ?thesis by simp
  next
    case False
    with Cons.prems have "i \<in> set xs" and "distinct (map i_id xs)" and "i_id x \<noteq> i_id i"
      by (auto simp: image_iff)
    with Cons.IH show ?thesis by simp
  qed
qed

lemma row_with_id_unique:
  assumes "i \<in> set xs" and "distinct (map i_id xs)" and "j \<in> set xs" and "i_id j = i_id i"
  shows "j = i"
proof -
  from assms(3,4) have "j \<in> set (filter (\<lambda>j. i_id j = i_id i) xs)" by simp
  with rows_with_id [OF assms(1,2)] show ?thesis by simp
qed

lemma select_issue_single_row:
  assumes "i \<in> set (issues d)" and "distinct (map i_id (issues d))"
  shows "select_issue_single d (i_id i) net = (case net of Some m \<Rightarrow> None | None \<Rightarrow> Some i)"
  by (simp add: select_issue_single_def rows_with_id [OF assms] single_def split: option.splits)

lemma delete_issues_nothing:
  assumes "\<And>j. j \<in> set (issues d) \<Longrightarrow> \<not> (i_id j = iid \<and> reporter_id j = uid \<and> pol auth j)"
  shows "delete_issues pol d auth iid uid None = (None, d)"
proof -
  from assms have gone: "filter (\<lambda>j. i_id j = iid \<and> reporter_id j = uid \<and> pol auth j) (issues d) = []"
    by (auto simp: filter_empty_conv)
  from assms have kept: "filter (\<lambda>j. \<not> (i_id j = iid \<and> reporter_id j = uid \<and> pol auth j)) (issues d) = issues d"
    by (auto simp: filter_id_conv)
  show ?thesis
    unfolding delete_issues_def Let_def gone kept by simp
qed

lemma count_issues_row:
  assumes "i \<in> set (issues d)" and "distinct (map i_id (issues d))"
  shows "count_issues d (i_id i) net = (case net of Some m \<Rightarrow> Inl (request_failed m) | None \<Rightarrow> Inr 1)"
  by (simp add: count_issues_def rows_with_id [OF assms] split: option.splits)

lemma handleDeleteIssue_not_reporter:
  assumes "i \<in> set (issues d)" and "distinct (map i_id (issues d))" and "uid \<noteq> reporter_id i"
  shows "\<exists>e. handleDeleteIssue pol d (Some uid) (i_id i) n1 n2 n3 = (Failed ''Delete failed'' e, d)"
proof -
  have untouched: "delete_issues pol d (Some uid) (i_id i) uid None = (None, d)"
  proof (rule delete_issues_nothing)
    fix j assume "j \<in> set (issues d)"
    with row_with_id_unique [OF assms(1,2)] assms(3)
    show "\<not> (i_id j = i_id i \<and> reporter_id j = uid \<and> pol (Some uid) j)"
      by auto
  qed
  have failed: "delete_issues pol d (Some uid) (i_id i) uid (Some m) = (Some (request_failed m), d)" for m
    by (simp add: delete_issues_def)
  show ?thesis
    using assms(3)
    by (cases n1; cases n2; cases n3)
       (simp_all add: handleDeleteIssue_def select_issue_single_row [OF assms(1,2)]
          count_issues_row [OF assms(1,2)] untouched failed)
qed

lemma handleDeleteIssue_no_policy:
  assumes "i \<in> set (issues d)" and "distinct (map i_id (issues d))"
  shows "handleDeleteIssue no_delete_policy d (Some (reporter_id i)) (i_id i) n1 None None
    = (Failed ''Delete failed'' (Error ''Delete did not apply due to permissions''), d)"
proof -
  have untouched: "delete_issues no_delete_policy d (Some (reporter_id i)) (i_id i) (reporter_id i) None = (None, d)"
    by (rule delete_issues_nothing) (simp add: no_delete_policy_def)
  show ?thesis
    by (cases n1)
       (simp_all add: handleDeleteIssue_def select_issue_single_row [OF assms]
          count_issues_row [OF assms] untouched)
qed

lemma delete_issues_own:
  assumes "i \<in> set (issues d)" and "distinct (map i_id (issues d))"
  shows "delete_issues users_can_delete_their_own_issues d (Some (reporter_id i)) (i_id i)
      (reporter_id i) None
    = (None, d\<lparr>issues := filter (\<lambda>j. i_id j \<noteq> i_id i) (issues d),
               upvotes := filter (\<lambda>u. issue_id u \<noteq> i_id i) (upvotes d)\<rparr>)"
proof -
  have "filter (\<lambda>j. i_id j = i_id i \<and> reporter_id j = reporter_id i
        \<and> users_can_delete_their_own_issues (Some (reporter_id i)) j) (issues d)
      = filter (\<lambda>j. i_id j = i_id i) (issues d)"
    using row_with_id_unique [OF assms]
    by (intro filter_cong) (auto simp: users_can_delete_their_own_issues_def)
  then have gone: "filter (\<lambda>j. i_id j = i_id i \<and> reporter_id j = reporter_id i
        \<and> users_can_delete_their_own_issues (Some (reporter_id i)) j) (issues d) = [i]"
    by (simp only: rows_with_id [OF assms])
  have kept: "filter (\<lambda>j. \<not> (i_id j = i_id i \<and> reporter_id j = reporter_id i
        \<and> users_can_delete_their_own_issues (Some (reporter_id i)) j)) (issues d)
      = filter (\<lambda>j. i_id j \<noteq> i_id i) (issues d)"
    using row_with_id_unique [OF assms]
    by (intro filter_cong) (auto simp: users_can_delete_their_own_issues_def)
  have cascade: "filter (\<lambda>u. \<not> list_ex (\<lambda>j. i_id j = issue_id u) [i]) (upvotes d)
      = filter (\<lambda>u. issue_id u \<noteq> i_id i) (upvotes d)"
    by (intro filter_cong) auto
  show ?thesis
    unfolding delete_issues_def Let_def gone kept cascade by simp
qed

lemma handleDeleteIssue_reporter:
  assumes "i \<in> set (issues d)" and "distinct (map i_id (issues d))"
  shows "handleDeleteIssue users_can_delete_their_own_issues d (Some (reporter_id i)) (i_id i)
      n1 None None
    = (Succeeded (Some (''Issue deleted'', ''Your report has been removed.'')),
       d\<lparr>issues := filter (\<lambda>j. i_id j \<noteq> i_id i) (issues d),
         upvotes := filter (\<lambda>u. issue_id u \<noteq> i_id i) (upvotes d)\<rparr>)"
proof -
  have none_left: "count_issues
      (d\<lparr>issues := filter (\<lambda>j. i_id j \<noteq> i_id i) (issues d),
         upvotes := filter (\<lambda>u. issue_id u \<noteq> i_id i) (upvotes d)\<rparr>) (i_id i) None = Inr 0"
    by (simp add: count_issues_def)
  show ?thesis
    by (cases n1)
       (simp_all add: handleDeleteIssue_def select_issue_single_row [OF assms]
          delete_issues_own [OF assms] none_left)
qed

lemma handleDeleteIssue_succeeded:
  assumes "fst (handleDeleteIssue pol d user iid n1 n2 n3) = Succeeded s"
  shows "\<not> list_ex (\<lambda>j. i_id j = iid) (issues (snd (handleDeleteIssue pol d user iid n1 n2 n3)))"
  using assms
  by (auto simp: handleDeleteIssue_def Let_def count_issues_def list_ex_iff filter_empty_conv
        split: option.splits prod.splits sum.splits if_splits)

text \<open>
  C4. For an issue of the table, a delete attempted by anyone but its reporter ends in the
  handler's error notice and changes nothing, whatever the delete policy and whichever
  requests complete; the reporter's delete succeeds under the policy
  \<open>"Users can delete their own issues"\<close> and removes the row. The handler counts the
  rows left after the delete: it reports success only when none is left, and when the
  delete call returned without an error and the row is still there (no delete policy in
  force) it fails with "Delete did not apply due to permissions".
\<close>

theorem handleDeleteIssue_reporter_only:
  assumes "i \<in> set (issues d)" and "distinct (map i_id (issues d))"
  shows "(uid \<noteq> reporter_id i \<longrightarrow>
        (\<exists>e. handleDeleteIssue pol d (Some uid) (i_id i) n1 n2 n3 = (Failed ''Delete failed'' e, d)))
    \<and> handleDeleteIssue users_can_delete_their_own_issues d (Some (reporter_id i)) (i_id i)
          n1 None None
        = (Succeeded (Some (''Issue deleted'', ''Your report has been removed.'')),
           d\<lparr>issues := filter (\<lambda>j. i_id j \<noteq> i_id i) (issues d),
             upvotes := filter (\<lambda>u. issue_id u \<noteq> i_id i) (upvotes d)\<rparr>)
    \<and> (fst (handleDeleteIssue pol d user (i_id i) n1 n2 n3) = Succeeded s \<longrightarrow>
        user = Some (reporter_id i)
        \<and> \<not> list_ex (\<lambda>j. i_id j = i_id i)
              (issues (snd (handleDeleteIssue pol d user (i_id i) n1 n2 n3))))
    \<and> handleDeleteIssue no_delete_policy d (Some (reporter_id i)) (i_id i) n1 None None
        = (Failed ''Delete failed'' (Error ''Delete did not apply due to permissions''), d)"
proof (intro conjI impI)
  assume "uid \<noteq> reporter_id i"
  with assms
  show "\<exists>e. handleDeleteIssue pol d (Some uid) (i_id i) n1 n2 n3 = (Failed ''Delete failed'' e, d)"
    by (rule handleDeleteIssue_not_reporter)
next
  show "handleDeleteIssue users_can_delete_their_own_issues d (Some (reporter_id i)) (i_id i)
          n1 None None
        = (Succeeded (Some (''Issue deleted'', ''Your report has been removed.'')),
           d\<lparr>issues := filter (\<lambda>j. i_id j \<noteq> i_id i) (issues d),
             upvotes := filter (\<lambda>u. issue_id u \<noteq> i_id i) (upvotes d)\<rparr>)"
    using assms by (rule handleDeleteIssue_reporter)
next
  assume ok: "fst (handleDeleteIssue pol d user (i_id i) n1 n2 n3) = Succeeded s"
  show "user = Some (reporter_id i)"
  proof (cases user)
    case None
    with ok show ?thesis
      by (simp add: handleDeleteIssue_def)
  next
    case (Some uid)
    show ?thesis
    proof (rule ccontr)
      assume "user \<noteq> Some (reporter_id i)"
      with Some have "uid \<noteq> reporter_id i" by simp
      from handleDeleteIssue_not_reporter [OF assms this, of pol n1 n2 n3] ok Some
      show False by auto
    qed
  qed
next
  assume "fst (handleDeleteIssue pol d user (i_id i) n1 n2 n3) = Succeeded s"
  then show "\<not> list_ex (\<lambda>j. i_id j = i_id i)
      (issues (snd (handleDeleteIssue pol d user (i_id i) n1 n2 n3)))"
    by (rule handleDeleteIssue_succeeded)
next
  show "handleDeleteIssue no_delete_policy d (Some (reporter_id i)) (i_id i) n1 None None
        = (Failed ''Delete failed'' (Error ''Delete did not apply due to permissions''), d)"
    using assms by (rule handleDeleteIssue_no_policy)
qed

theorem handleDeleteIssue_reporter_only_witness:
  "example_issue ''i2'' ''s1'' ''dept-2'' 1200 \<in> set (issues example_db)
   \<and> distinct (map i_id (issues example_db))
   \<and> handleDeleteIssue users_can_delete_their_own_issues example_db (Some ''h1'') ''i2''
         None None None
       = (Failed ''Delete failed'' (Error ''You are not the reporter of this issue''), example_db)
   \<and> fst (handleDeleteIssue users_can_delete_their_own_issues example_db (Some ''s1'') ''i2''
         None None None)
       = Succeeded (Some (''Issue deleted'', ''Your report has been removed.''))
   \<and> map i_id (issues (snd (handleDeleteIssue users_can_delete_their_own_issues example_db
         (Some ''s1'') ''i2'' None None None))) = [''i1'']
   \<and> handleDeleteIssue no_delete_policy example_db (Some ''s1'') ''i2'' None None None
       = (Failed ''Delete failed'' (Error ''Delete did not apply due to permissions''), example_db)"
proof -
  let ?i = "example_issue ''i2'' ''s1'' ''dept-2'' 1200"
  have row: "?i \<in> set (issues example_db)"
    by (simp add: example_db_def)
  have keys: "distinct (map i_id (issues example_db))"
    by (simp add: example_db_def example_issue_def)
  have ident: "i_id ?i = ''i2''" and owner: "reporter_id ?i = ''s1''"
    by (simp_all add: example_issue_def)
  have other: "handleDeleteIssue users_can_delete_their_own_issues example_db (Some ''h1'') ''i2''
         None None None
       = (Failed ''Delete failed'' (Error ''You are not the reporter of this issue''), example_db)"
    by (simp add: handleDeleteIssue_def select_issue_single_def single_def example_db_def
          example_issue_def)
  note inst = handleDeleteIssue_reporter_only
    [OF row keys, of "''h1''" users_can_delete_their_own_issues None None None "Some ''s1''"
        "Some (''Issue deleted'', ''Your report has been removed.'')", unfolded ident owner]
  from inst
  have own: "handleDeleteIssue users_can_delete_their_own_issues example_db (Some ''s1'') ''i2''
        None None None
      = (Succeeded (Some (''Issue deleted'', ''Your report has been removed.'')),
         example_db\<lparr>issues := filter (\<lambda>j. i_id j \<noteq> ''i2'') (issues example_db),
           upvotes := filter (\<lambda>u. issue_id u \<noteq> ''i2'') (upvotes example_db)\<rparr>)"
    and unapplied: "handleDeleteIssue no_delete_policy example_db (Some ''s1'') ''i2'' None None None
      = (Failed ''Delete failed'' (Error ''Delete did not apply due to permissions''), example_db)"
    by blast+
  have left: "map i_id (issues (snd (handleDeleteIssue users_can_delete_their_own_issues example_db
         (Some ''s1'') ''i2'' None None None))) = [''i1'']"
    unfolding own by (simp add: example_db_def example_issue_def)
  from row keys other own left unapplied show ?thesis
    by simp
qed

end
